theory Spec2Isabelle
  imports Complex_Main "HOL-Library.Word" "HOL-Library.Sublist"
begin

text \<open>
  The dashboard of the synthetic-data platform: the dataset uploader, the generation
  trigger, the report download of the metrics viewer and the aggregate counts of the
  shell, each as a function on the state of its component and the rows of the hosted
  store, followed by the properties the specification states about them.
\<close>

section \<open>JavaScript strings and the built-ins the components call\<close>

text \<open>
  A JavaScript string is a sequence of 16-bit code units. \<open>str\<close> writes a string
  literal whose characters are all ASCII.
\<close>

type_synonym unit16 = "16 word"
type_synonym jsstring = "unit16 list"

definition str :: "string \<Rightarrow> jsstring" where
  "str s = map (\<lambda>c. of_nat (of_char c)) s"

text \<open>
  \<open>String.prototype.trim\<close> removes white space and line terminators from both ends:
  TAB, LF, VT, FF, CR, SP, NBSP, the Unicode space separators, LS, PS and the BOM.
\<close>

definition isWhiteSpace :: "unit16 \<Rightarrow> bool" where
  "isWhiteSpace c \<longleftrightarrow>
     (0x0009 \<le> c \<and> c \<le> 0x000D) \<or> c = 0x0020 \<or> c = 0x00A0 \<or> c = 0x1680 \<or>
     (0x2000 \<le> c \<and> c \<le> 0x200A) \<or> c = 0x2028 \<or> c = 0x2029 \<or> c = 0x202F \<or>
     c = 0x205F \<or> c = 0x3000 \<or> c = 0xFEFF"

definition trim :: "jsstring \<Rightarrow> jsstring" where
  "trim s = rev (dropWhile isWhiteSpace (rev (dropWhile isWhiteSpace s)))"

text \<open>
  \<open>s.split(sep)\<close> for a separator of one code unit. The result is never empty:
  \<open>"".split(",")\<close> is \<open>[""]\<close>; the \<open>[]\<close> branch of the \<open>case\<close> is never taken.
\<close>

fun split :: "unit16 \<Rightarrow> jsstring \<Rightarrow> jsstring list" where
  "split sep [] = [[]]"
| "split sep (c # cs) =
     (if c = sep then [] # split sep cs
      else (case split sep cs of
              [] \<Rightarrow> [[c]]
            | piece # pieces \<Rightarrow> (c # piece) # pieces))"

text \<open>
  \<open>toLowerCase\<close> on the capitals of Basic Latin and Latin-1; every other code unit
  is left as it is.
\<close>

definition lower_unit :: "unit16 \<Rightarrow> unit16" where
  "lower_unit c =
     (if (0x0041 \<le> c \<and> c \<le> 0x005A) \<or> (0x00C0 \<le> c \<and> c \<le> 0x00DE \<and> c \<noteq> 0x00D7)
      then c + 0x0020 else c)"

definition toLowerCase :: "jsstring \<Rightarrow> jsstring" where
  "toLowerCase s = map lower_unit s"

text \<open>\<open>s.includes(sub)\<close>: scan the start positions from left to right.\<close>

fun js_includes :: "jsstring \<Rightarrow> jsstring \<Rightarrow> bool" where
  "js_includes [] sub = (sub = [])"
| "js_includes (c # cs) sub = (prefix sub (c # cs) \<or> js_includes cs sub)"

text \<open>\<open>s.replace(pat, rep)\<close> with a string pattern: the first occurrence only.\<close>

fun replace :: "jsstring \<Rightarrow> jsstring \<Rightarrow> jsstring \<Rightarrow> jsstring" where
  "replace pat rep [] = (if pat = [] then rep else [])"
| "replace pat rep (c # cs) =
     (if prefix pat (c # cs) then rep @ drop (length pat) (c # cs)
      else c # replace pat rep cs)"

text \<open>\<open>s.slice(0, n)\<close>: the first \<open>n\<close> code units, or all of \<open>s\<close> when it is shorter.\<close>

definition slice0 :: "nat \<Rightarrow> jsstring \<Rightarrow> jsstring" where
  "slice0 n s = take n s"

text \<open>\<open>a || b\<close> on strings: the empty string (like \<open>undefined\<close>) is falsy.\<close>

definition or_else :: "jsstring \<Rightarrow> jsstring \<Rightarrow> jsstring" where
  "or_else a b = (if a = [] then b else a)"

text \<open>
  \<open>new Date(t).toISOString()\<close> is kept symbolic: the ISO-8601 rendering of the instant
  \<open>t\<close>, in milliseconds since the epoch.
\<close>

datatype iso_string = toISOString int

text \<open>
  \<open>new Date(s).getTime()\<close> of a stored ISO string: the instant it renders. (The metrics
  viewer reads the stored \<open>valid_until\<close> back with \<open>new Date\<close>.)
\<close>

fun getTime :: "iso_string \<Rightarrow> int" where
  "getTime (toISOString t) = t"


section \<open>The hosted store\<close>

text \<open>
  An error object, of which the components read \<open>message\<close> only (an absent message is
  the empty one: both are falsy).
\<close>

datatype js_error = Error (message: jsstring)

text \<open>
  What an awaited data-client call gives: \<open>{data, error: null}\<close>, \<open>{data: null, error}\<close>,
  or a rejected promise.
\<close>

datatype 'a result = Data 'a | Err js_error | Throw js_error

text \<open>
  What the store decides about an insert: the row is committed under a fresh id, the
  insert is refused and the error is reported in the response, or the call itself
  rejects. The data client is not part of the repository; its decision is an input.
\<close>

datatype outcome = Commit jsstring | Refuse js_error | Reject js_error

text \<open>The requests that reach the store are logged, by the table they insert into.\<close>

datatype request = Insert jsstring

record user =
  uid :: jsstring

record project =
  p_id :: jsstring
  user_id :: jsstring
  p_name :: jsstring
  p_description :: jsstring
  industry :: jsstring

record column =
  name :: jsstring
  type :: jsstring
  sensitive :: bool

record dataset =
  d_id :: jsstring
  project_id :: jsstring
  d_name :: jsstring
  d_description :: jsstring
  schema_json :: "column list"
  row_count :: int
  data_type :: jsstring
  status :: jsstring

record 'n params =
  model_type :: jsstring
  target_rows :: 'n
  epsilon :: 'n
  k_anonymity :: 'n

record 'n generation =
  g_id :: jsstring
  dataset_id :: jsstring
  g_user_id :: jsstring
  g_model_type :: jsstring
  parameters :: "'n params"
  g_row_count :: 'n
  g_status :: jsstring
  started_at :: iso_string
  completed_at :: iso_string

record 'n privacy_row =
  pm_generation_id :: jsstring
  pm_epsilon :: 'n
  pm_k_anonymity :: 'n
  privacy_risk_score :: real
  leakage_probability :: real
  differential_privacy :: bool
  anonymization_level :: jsstring

record utility_row =
  um_generation_id :: jsstring
  fidelity_score :: real
  similarity_score :: real
  correlation_preservation :: real
  distribution_similarity :: real
  ml_efficacy_score :: real
  statistical_tests_passed :: int
  total_statistical_tests :: int

record report_data =
  regulation :: jsstring
  privacy_guarantees :: jsstring
  anonymization :: jsstring
  data_minimization :: bool
  purpose_limitation :: bool
  generated_at :: iso_string
  valid_until :: iso_string

record compliance_row =
  cr_generation_id :: jsstring
  report_type :: jsstring
  compliance_status :: jsstring
  report :: report_data

record 'n backend =
  projects :: "project list"
  datasets :: "dataset list"
  synthetic_generations :: "'n generation list"
  privacy_metrics :: "'n privacy_row list"
  utility_metrics :: "utility_row list"
  compliance_reports :: "compliance_row list"
  requests :: "request list"

text \<open>\<open>supabase.from('datasets').insert([row]).select().single()\<close>\<close>

definition insert_dataset :: "outcome \<Rightarrow> dataset \<Rightarrow> 'n backend \<Rightarrow> dataset result \<times> 'n backend" where
  "insert_dataset oc row b =
     (let b1 = b\<lparr>requests := requests b @ [Insert (str ''datasets'')]\<rparr>
      in case oc of
           Commit i \<Rightarrow> (Data (row\<lparr>d_id := i\<rparr>), b1\<lparr>datasets := datasets b1 @ [row\<lparr>d_id := i\<rparr>]\<rparr>)
         | Refuse e \<Rightarrow> (Err e, b1)
         | Reject e \<Rightarrow> (Throw e, b1))"


section \<open>Dataset uploader\<close>

record js_file =
  file_name :: jsstring
  file_type :: jsstring
  file_text :: jsstring

text \<open>A callback handed to \<open>setTimeout\<close>, kept with its delay in milliseconds.\<close>

datatype callback = OnUploadComplete jsstring | OnGenerationComplete

record upload_state =
  file_state :: "js_file option"
  uploading :: bool
  error :: jsstring
  success :: bool
  datasetName :: jsstring
  description :: jsstring
  timers :: "(nat \<times> callback) list"

text \<open>\<open>handleFileChange\<close>; the argument is \<open>e.target.files\<close>.\<close>

definition handleFileChange ::
  "js_file list option \<Rightarrow> upload_state \<times> 'n backend \<Rightarrow> upload_state \<times> 'n backend" where
  "handleFileChange files w =
     (case w of (ui, b) \<Rightarrow>
        (case files of
           Some (selectedFile # others) \<Rightarrow>
             if file_type selectedFile \<noteq> str ''text/csv''
             then (ui\<lparr>error := str ''Please upload a CSV file''\<rparr>, b)
             else (ui\<lparr>file_state := Some selectedFile,
                      datasetName := replace (str ''.csv'') [] (file_name selectedFile),
                      error := []\<rparr>, b)
         | _ \<Rightarrow> w))"

text \<open>The schema entry \<open>handleUpload\<close> builds for one header.\<close>

definition schema_entry :: "jsstring \<Rightarrow> column" where
  "schema_entry header =
     \<lparr>name = trim header,
      type = str ''string'',
      sensitive = (js_includes (toLowerCase header) (str ''id'') \<or>
                   js_includes (toLowerCase header) (str ''name'') \<or>
                   js_includes (toLowerCase header) (str ''phone''))\<rparr>"

text \<open>The \<open>catch\<close> and \<open>finally\<close> blocks of \<open>handleUpload\<close>.\<close>

definition upload_failed :: "js_error \<Rightarrow> upload_state \<Rightarrow> upload_state" where
  "upload_failed err ui = ui\<lparr>error := or_else (message err) (str ''Upload failed''), uploading := False\<rparr>"

text \<open>
  \<open>handleUpload\<close>. \<open>rows[0]\<close> of an empty \<open>rows\<close> is \<open>undefined\<close>, and calling
  \<open>split\<close> on it throws a TypeError whose message is the engine's (\<open>type_error_message\<close>).
\<close>

definition handleUpload ::
  "jsstring \<Rightarrow> outcome \<Rightarrow> jsstring option \<Rightarrow> user option \<Rightarrow>
   upload_state \<times> 'n backend \<Rightarrow> upload_state \<times> 'n backend" where
  "handleUpload type_error_message oc projectId usr w =
     (case w of (ui, b) \<Rightarrow>
        (case (file_state ui, projectId, usr) of
           (Some f, Some pid, Some u) \<Rightarrow>
             if pid = [] then w
             else
               let ui1 = ui\<lparr>uploading := True, error := []\<rparr>;
                   rows = filter (\<lambda>row. trim row \<noteq> []) (split 0x000A (file_text f))
               in (case rows of
                     [] \<Rightarrow> (upload_failed (Error type_error_message) ui1, b)
                   | header_row # data_rows \<Rightarrow>
                       let headers = split 0x002C header_row;
                           schema = map schema_entry headers;
                           (res, b1) = insert_dataset oc
                             \<lparr>d_id = [],
                              project_id = pid,
                              d_name = datasetName ui1,
                              d_description = description ui1,
                              schema_json = schema,
                              row_count = int (length rows) - 1,
                              data_type = str ''tabular'',
                              status = str ''uploaded''\<rparr> b
                       in (case res of
                             Data dataset \<Rightarrow>
                               (ui1\<lparr>success := True,
                                    timers := timers ui1 @ [(1500, OnUploadComplete (d_id dataset))],
                                    uploading := False\<rparr>, b1)
                           | Err dbError \<Rightarrow> (upload_failed dbError ui1, b1)
                           | Throw err \<Rightarrow> (upload_failed err ui1, b1)))
         | _ \<Rightarrow> w))"


section \<open>Generation trigger\<close>

text \<open>
  What the handler takes from its surroundings: the conversion of a number to a string
  in a template literal (the number type \<open>'n\<close> itself is left open), the successive
  readings of the clock (\<open>new Date()\<close> twice for the Generation row, \<open>new Date()\<close> and
  \<open>Date.now()\<close> for the report), the successive results of \<open>Math.random()\<close>, taken as
  real numbers, and the instants at which the promises of the three inserts settle, by
  their place in the array given to \<open>Promise.all\<close>.
\<close>

record 'n gen_env =
  ToString :: "'n \<Rightarrow> jsstring"
  clock :: "nat \<Rightarrow> int"
  random :: "nat \<Rightarrow> real"
  arrival :: "nat \<Rightarrow> nat"

record 'n generator_state =
  generating :: bool
  g_success :: bool
  g_error :: jsstring
  g_params :: "'n params"
  g_timers :: "(nat \<times> callback) list"

text \<open>\<open>supabase.from('synthetic_generations').insert([row]).select().single()\<close>\<close>

definition insert_generation ::
  "outcome \<Rightarrow> 'n generation \<Rightarrow> 'n backend \<Rightarrow> 'n generation result \<times> 'n backend" where
  "insert_generation oc row b =
     (let b1 = b\<lparr>requests := requests b @ [Insert (str ''synthetic_generations'')]\<rparr>
      in case oc of
           Commit i \<Rightarrow> (Data (row\<lparr>g_id := i\<rparr>),
                        b1\<lparr>synthetic_generations := synthetic_generations b1 @ [row\<lparr>g_id := i\<rparr>]\<rparr>)
         | Refuse e \<Rightarrow> (Err e, b1)
         | Reject e \<Rightarrow> (Throw e, b1))"

text \<open>The three inserts without \<open>select()\<close>: the response carries no row.\<close>

definition settle :: "outcome \<Rightarrow> unit result" where
  "settle oc = (case oc of Commit i \<Rightarrow> Data () | Refuse e \<Rightarrow> Err e | Reject e \<Rightarrow> Throw e)"

definition insert_privacy ::
  "outcome \<Rightarrow> 'n privacy_row \<Rightarrow> 'n backend \<Rightarrow> unit result \<times> 'n backend" where
  "insert_privacy oc row b =
     (let b1 = b\<lparr>requests := requests b @ [Insert (str ''privacy_metrics'')]\<rparr>
      in (settle oc,
          case oc of Commit i \<Rightarrow> b1\<lparr>privacy_metrics := privacy_metrics b1 @ [row]\<rparr> | _ \<Rightarrow> b1))"

definition insert_utility ::
  "outcome \<Rightarrow> utility_row \<Rightarrow> 'n backend \<Rightarrow> unit result \<times> 'n backend" where
  "insert_utility oc row b =
     (let b1 = b\<lparr>requests := requests b @ [Insert (str ''utility_metrics'')]\<rparr>
      in (settle oc,
          case oc of Commit i \<Rightarrow> b1\<lparr>utility_metrics := utility_metrics b1 @ [row]\<rparr> | _ \<Rightarrow> b1))"

definition insert_compliance ::
  "outcome \<Rightarrow> compliance_row \<Rightarrow> 'n backend \<Rightarrow> unit result \<times> 'n backend" where
  "insert_compliance oc row b =
     (let b1 = b\<lparr>requests := requests b @ [Insert (str ''compliance_reports'')]\<rparr>
      in (settle oc,
          case oc of Commit i \<Rightarrow> b1\<lparr>compliance_reports := compliance_reports b1 @ [row]\<rparr> | _ \<Rightarrow> b1))"

text \<open>
  The rejection that comes first in time among the promises of a list whose first place
  is \<open>i\<close>, with its instant; \<open>settles j\<close> is the instant at which the promise at place
  \<open>j\<close> settles, and of two that settle together the earlier in the list counts.
\<close>

fun first_rejection :: "(nat \<Rightarrow> nat) \<Rightarrow> nat \<Rightarrow> 'a result list \<Rightarrow> (nat \<times> js_error) option" where
  "first_rejection settles i [] = None"
| "first_rejection settles i (Throw e # rs) =
     (case first_rejection settles (Suc i) rs of
        None \<Rightarrow> Some (settles i, e)
      | Some (t, later) \<Rightarrow> if settles i \<le> t then Some (settles i, e) else Some (t, later))"
| "first_rejection settles i (r # rs) = first_rejection settles (Suc i) rs"

text \<open>
  \<open>await Promise.all([...])\<close>: throws the error of the promise that rejects first in
  time, and otherwise gives the responses, whatever their \<open>error\<close> fields hold.
\<close>

definition promise_all :: "(nat \<Rightarrow> nat) \<Rightarrow> 'a result list \<Rightarrow> js_error + 'a result list" where
  "promise_all settles rs =
     (case first_rejection settles 0 rs of None \<Rightarrow> Inr rs | Some (t, e) \<Rightarrow> Inl e)"

text \<open>The three objects \<open>handleGenerate\<close> builds, with the \<open>generation_id\<close> added.\<close>

definition privacyMetrics :: "'n gen_env \<Rightarrow> 'n params \<Rightarrow> jsstring \<Rightarrow> 'n privacy_row" where
  "privacyMetrics env ps gid =
     \<lparr>pm_generation_id = gid,
      pm_epsilon = epsilon ps,
      pm_k_anonymity = k_anonymity ps,
      privacy_risk_score = 0.05 + random env 0 * 0.10,
      leakage_probability = 0.001 + random env 1 * 0.005,
      differential_privacy = True,
      anonymization_level = str ''high''\<rparr>"

definition utilityMetrics :: "'n gen_env \<Rightarrow> jsstring \<Rightarrow> utility_row" where
  "utilityMetrics env gid =
     \<lparr>um_generation_id = gid,
      fidelity_score = 0.85 + random env 2 * 0.10,
      similarity_score = 0.88 + random env 3 * 0.08,
      correlation_preservation = 0.90 + random env 4 * 0.08,
      distribution_similarity = 0.87 + random env 5 * 0.09,
      ml_efficacy_score = 0.82 + random env 6 * 0.12,
      statistical_tests_passed = 15,
      total_statistical_tests = 18\<rparr>"

definition complianceData :: "'n gen_env \<Rightarrow> 'n params \<Rightarrow> jsstring \<Rightarrow> compliance_row" where
  "complianceData env ps gid =
     \<lparr>cr_generation_id = gid,
      report_type = str ''kenya_dpa'',
      compliance_status = str ''compliant'',
      report =
        \<lparr>regulation = str ''Kenya Data Protection Act, 2019'',
         privacy_guarantees =
           [0x03B5] @ str ''-differential privacy with '' @ [0x03B5] @ str ''='' @ ToString env (epsilon ps),
         anonymization = str ''k-anonymity with k='' @ ToString env (k_anonymity ps),
         data_minimization = True,
         purpose_limitation = True,
         generated_at = toISOString (clock env 2),
         valid_until = toISOString (clock env 3 + 365 * 24 * 60 * 60 * 1000)\<rparr>\<rparr>"

text \<open>The \<open>catch\<close> and \<open>finally\<close> blocks of \<open>handleGenerate\<close>.\<close>

definition generate_failed :: "js_error \<Rightarrow> 'n generator_state \<Rightarrow> 'n generator_state" where
  "generate_failed err ui =
     ui\<lparr>g_error := or_else (message err) (str ''Generation failed''), generating := False\<rparr>"

text \<open>
  \<open>handleGenerate\<close>. The three inserts are all issued before any of them is awaited, so
  each reaches the store whatever the others do; the responses of \<open>Promise.all\<close> are
  dropped.
\<close>

definition handleGenerate ::
  "'n gen_env \<Rightarrow> outcome \<Rightarrow> outcome \<Rightarrow> outcome \<Rightarrow> outcome \<Rightarrow> jsstring option \<Rightarrow> user option \<Rightarrow>
   'n generator_state \<times> 'n backend \<Rightarrow> 'n generator_state \<times> 'n backend" where
  "handleGenerate env on_generation on_privacy on_utility on_compliance datasetId usr w =
     (case w of (ui, b) \<Rightarrow>
        (case (datasetId, usr) of
           (Some did, Some u) \<Rightarrow>
             if did = [] then w
             else
               let ui1 = ui\<lparr>generating := True, g_error := []\<rparr>;
                   ps = g_params ui1;
                   (res, b1) = insert_generation on_generation
                     \<lparr>g_id = [],
                      dataset_id = did,
                      g_user_id = uid u,
                      g_model_type = model_type ps,
                      parameters = ps,
                      g_row_count = target_rows ps,
                      g_status = str ''completed'',
                      started_at = toISOString (clock env 0),
                      completed_at = toISOString (clock env 1)\<rparr> b
               in (case res of
                     Err genError \<Rightarrow> (generate_failed genError ui1, b1)
                   | Throw err \<Rightarrow> (generate_failed err ui1, b1)
                   | Data generation \<Rightarrow>
                       let (r1, b2) = insert_privacy on_privacy (privacyMetrics env ps (g_id generation)) b1;
                           (r2, b3) = insert_utility on_utility (utilityMetrics env (g_id generation)) b2;
                           (r3, b4) = insert_compliance on_compliance (complianceData env ps (g_id generation)) b3
                       in (case promise_all (arrival env) [r1, r2, r3] of
                             Inl err \<Rightarrow> (generate_failed err ui1, b4)
                           | Inr responses \<Rightarrow>
                               (ui1\<lparr>g_success := True,
                                    g_timers := g_timers ui1 @ [(2000, OnGenerationComplete)],
                                    generating := False\<rparr>, b4)))
         | _ \<Rightarrow> w))"


section \<open>Metrics viewer: the report download\<close>

record 'n generation_view =
  v_id :: jsstring
  v_dataset_name :: jsstring
  v_row_count :: 'n
  v_model_type :: jsstring
  v_privacy_metrics :: "'n privacy_row list"
  v_utility_metrics :: "utility_row list"
  v_compliance_reports :: "compliance_row list"

record blob =
  content :: jsstring
  blob_type :: jsstring

record download =
  href :: blob
  download_name :: jsstring

text \<open>
  \<open>downloadComplianceReport\<close>, on the files the browser has saved and the store. The
  template literal of the content formats dates and numbers by the browser's locale;
  it is the parameter \<open>render\<close>.
\<close>

definition downloadComplianceReport ::
  "('n generation_view \<Rightarrow> compliance_row \<Rightarrow> jsstring) \<Rightarrow> 'n generation_view \<Rightarrow>
   download list \<times> 'n backend \<Rightarrow> download list \<times> 'n backend" where
  "downloadComplianceReport render gen w =
     (case w of (saved, b) \<Rightarrow>
        (case v_compliance_reports gen of
           [] \<Rightarrow> w
         | rep # others \<Rightarrow>
             (saved @ [\<lparr>href = \<lparr>content = render gen rep, blob_type = str ''text/plain''\<rparr>,
                        download_name = str ''compliance-report-'' @ slice0 8 (v_id gen) @ str ''.txt''\<rparr>],
              b)))"


section \<open>Dashboard shell: the aggregate counts\<close>








section \<open>Sample data\<close>

text \<open>
  Numbers written by their decimal rendering, so that \<open>ToString\<close> is the identity, a
  clock that advances by a millisecond from one reading to the next, and responses
  that arrive in the order of the requests; a store with no rows; a signed-in user; a file of one header line, two data lines and a
  line of blanks.
\<close>

definition no_rows :: "jsstring backend" where
  "no_rows = \<lparr>projects = [], datasets = [], synthetic_generations = [], privacy_metrics = [],
     utility_metrics = [], compliance_reports = [], requests = []\<rparr>"

definition amina :: user where
  "amina = \<lparr>uid = str ''u-1''\<rparr>"

definition loans_csv :: js_file where
  "loans_csv = \<lparr>file_name = str ''loans.csv'', file_type = str ''text/csv'',
     file_text = str ''a,b,id'' @ [0x000A] @ str ''1,2,3'' @ [0x000A] @ str ''  '' @ [0x000A] @
                 str ''4,5,6'' @ [0x000A]\<rparr>"

definition blank_csv :: js_file where
  "blank_csv = \<lparr>file_name = str ''blank.csv'', file_type = str ''text/csv'',
     file_text = str ''  '' @ [0x000A, 0x000D, 0x000A]\<rparr>"

definition notes_txt :: js_file where
  "notes_txt = \<lparr>file_name = str ''notes.txt'', file_type = str ''text/plain'',
     file_text = str ''a,b,id''\<rparr>"

definition idle_upload :: "js_file option \<Rightarrow> upload_state" where
  "idle_upload f = \<lparr>file_state = f, uploading = False, error = [], success = False,
     datasetName = str ''loans'', description = [], timers = []\<rparr>"

definition sample_env :: "jsstring gen_env" where
  "sample_env = \<lparr>ToString = (\<lambda>n. n), clock = (\<lambda>k. 1700000000000 + int k), random = (\<lambda>k. 1 / 2),
     arrival = (\<lambda>i. i)\<rparr>"

definition idle_generator :: "jsstring generator_state" where
  "idle_generator = \<lparr>generating = False, g_success = False, g_error = [],
     g_params = \<lparr>model_type = str ''ctgan'', target_rows = str ''10000'', epsilon = str ''1'',
                 k_anonymity = str ''5''\<rparr>,
     g_timers = []\<rparr>"

definition sample_view :: "jsstring generation_view" where
  "sample_view = \<lparr>v_id = str ''0b9f3c1e-7a52-4d6e-9c0a-1f2e3d4c5b6a'', v_dataset_name = str ''loans'',
     v_row_count = str ''10000'', v_model_type = str ''ctgan'', v_privacy_metrics = [],
     v_utility_metrics = [],
     v_compliance_reports = [complianceData sample_env (g_params idle_generator) (str ''0b9f3c1e-7a52-4d6e-9c0a-1f2e3d4c5b6a'')]\<rparr>"




section \<open>Facts about the built-ins\<close>

lemma trim_empty_iff: "trim s = [] \<longleftrightarrow> (\<forall>c \<in> set s. isWhiteSpace c)"
proof
  assume t: "trim s = []"
  have "dropWhile isWhiteSpace s = []"
  proof (rule ccontr)
    assume ne: "dropWhile isWhiteSpace s \<noteq> []"
    from t have "\<forall>c \<in> set (dropWhile isWhiteSpace s). isWhiteSpace c"
      by (simp add: trim_def dropWhile_eq_Nil_conv)
    with ne have "isWhiteSpace (hd (dropWhile isWhiteSpace s))"
      by simp
    with ne show False
      using hd_dropWhile [of isWhiteSpace s] by simp
  qed
  then show "\<forall>c \<in> set s. isWhiteSpace c"
    by (simp add: dropWhile_eq_Nil_conv)
next
  assume "\<forall>c \<in> set s. isWhiteSpace c"
  then show "trim s = []"
    by (auto simp: trim_def dropWhile_eq_Nil_conv dest: set_dropWhileD)
qed

lemma split_not_Nil: "split sep s \<noteq> []"
  by (induction s) (auto split: list.splits)

lemma split_length: "length (split sep s) = Suc (count_list s sep)"
  using split_not_Nil [of sep] by (induction s) (auto split: list.splits)

lemma split_no_sep: "p \<in> set (split sep s) \<Longrightarrow> sep \<notin> set p"
  by (induction s arbitrary: p) (auto split: if_splits list.splits)

lemma split_concat: "concat (map (\<lambda>p. p @ [sep]) (split sep s)) = s @ [sep]"
  by (induction s) (auto split: list.splits)

lemma includes_iff_sublist: "js_includes s sub \<longleftrightarrow> sublist sub s"
  by (induction s) (auto simp: sublist_Cons_right)

lemma filter_Cons_find: "filter P xs = y # ys \<Longrightarrow> find P xs = Some y"
  by (induction xs) (auto split: if_splits)


section \<open>Dataset uploader: the derived row\<close>

lemma handleUpload_stored:
  assumes "handleUpload tmsg oc projectId usr (ui, b) = (ui', b')"
    and "datasets b' \<noteq> datasets b"
  shows "\<exists>f pid i header_row data_rows.
           file_state ui = Some f \<and> projectId = Some pid \<and> oc = Commit i \<and>
           filter (\<lambda>row. trim row \<noteq> []) (split 0x000A (file_text f)) = header_row # data_rows \<and>
           datasets b' = datasets b @
             [\<lparr>d_id = i, project_id = pid, d_name = datasetName ui, d_description = description ui,
               schema_json = map schema_entry (split 0x002C header_row),
               row_count = int (length (header_row # data_rows)) - 1,
               data_type = str ''tabular'', status = str ''uploaded''\<rparr>]"
  using assms
  by (auto simp: handleUpload_def insert_dataset_def Let_def
           split: option.splits list.splits if_splits outcome.splits prod.splits result.splits)

text \<open>A file with a non-blank line, a project and a user: the row is stored when the store commits.\<close>

lemma handleUpload_commits:
  assumes "file_state ui = Some f" and "pid \<noteq> []"
    and "\<exists>line \<in> set (split 0x000A (file_text f)). \<exists>c \<in> set line. \<not> isWhiteSpace c"
  shows "\<exists>row. handleUpload tmsg (Commit i) (Some pid) (Some u) (ui, b) =
           (ui\<lparr>uploading := False, error := [], success := True,
               timers := timers ui @ [(1500, OnUploadComplete i)]\<rparr>,
            b\<lparr>requests := requests b @ [Insert (str ''datasets'')],
              datasets := datasets b @ [row]\<rparr>) \<and> d_id row = i \<and> project_id row = pid"
proof -
  from assms(3) have "filter (\<lambda>row. trim row \<noteq> []) (split 0x000A (file_text f)) \<noteq> []"
    by (simp add: filter_empty_conv trim_empty_iff)
  then obtain header_row data_rows where
    "filter (\<lambda>row. trim row \<noteq> []) (split 0x000A (file_text f)) = header_row # data_rows"
    by (cases "filter (\<lambda>row. trim row \<noteq> []) (split 0x000A (file_text f))") auto
  with assms(1,2) show ?thesis
    by (auto simp: handleUpload_def insert_dataset_def Let_def intro!: exI)
qed

lemma non_blank_eq: "(\<lambda>row. trim row \<noteq> []) = (\<lambda>line. \<exists>c \<in> set line. \<not> isWhiteSpace c)"
  by (auto simp: trim_empty_iff)

lemmas upload_eval = handleUpload_def insert_dataset_def Let_def no_rows_def idle_upload_def
  loans_csv_def blank_csv_def notes_txt_def amina_def str_def trim_def isWhiteSpace_def schema_entry_def
  toLowerCase_def lower_unit_def upload_failed_def or_else_def

text \<open>
  Claim C3. Whenever \<open>handleUpload\<close> stores a Dataset row for the pending file, the
  row's \<open>row_count\<close> is the number of lines of the file, split on newline, that hold a
  code unit which is not white space, minus one. (A file with no such line stores no
  row.)
\<close>

theorem upload_row_count:
  assumes "handleUpload tmsg oc projectId usr (ui, b) = (ui', b')"
    and "file_state ui = Some f"
    and "datasets b' \<noteq> datasets b"
  shows "\<exists>row. datasets b' = datasets b @ [row] \<and>
           row_count row =
             int (length (filter (\<lambda>line. \<exists>c \<in> set line. \<not> isWhiteSpace c)
                                 (split 0x000A (file_text f)))) - 1"
  using handleUpload_stored [OF assms(1) assms(3)] assms(2)
  unfolding non_blank_eq by auto

theorem upload_row_count_witness:
  "\<exists>row. datasets (snd (handleUpload [] (Commit (str ''d-1'')) (Some (str ''p-1'')) (Some amina)
             (idle_upload (Some loans_csv), no_rows))) = [row] \<and> row_count row = 2"
proof -
  let ?w = "handleUpload [] (Commit (str ''d-1'')) (Some (str ''p-1'')) (Some amina)
             (idle_upload (Some loans_csv), no_rows)"
  have 1: "?w = (fst ?w, snd ?w)" by simp
  have 2: "file_state (idle_upload (Some loans_csv)) = Some loans_csv" by (simp add: idle_upload_def)
  have 3: "datasets (snd ?w) \<noteq> datasets no_rows" by (simp add: upload_eval)
  have 4: "int (length (filter (\<lambda>line. \<exists>c \<in> set line. \<not> isWhiteSpace c)
                                 (split 0x000A (file_text loans_csv)))) - 1 = 2"
    by (simp add: loans_csv_def str_def isWhiteSpace_def)
  from upload_row_count [OF 1 2 3] show ?thesis
    unfolding 4 by (simp add: no_rows_def)
qed

text \<open>
  Claim C4. Whenever \<open>handleUpload\<close> stores a Dataset row, its schema has one entry for
  each piece of the first non-blank line split on commas (one more than the line has
  commas), in order: the name is the
  trimmed piece, the type is \<open>"string"\<close>, and the entry is sensitive exactly when the
  lower-cased piece has \<open>"id"\<close>, \<open>"name"\<close> or \<open>"phone"\<close> as a contiguous part. For the
  header line \<open>a,b,id\<close> the flags are false, false, true.
\<close>

theorem upload_schema:
  assumes "handleUpload tmsg oc projectId usr (ui, b) = (ui', b')"
    and "file_state ui = Some f"
    and "datasets b' \<noteq> datasets b"
  shows "\<exists>row line.
           datasets b' = datasets b @ [row] \<and>
           find (\<lambda>line. \<exists>c \<in> set line. \<not> isWhiteSpace c) (split 0x000A (file_text f)) = Some line \<and>
           length (schema_json row) = Suc (count_list line 0x002C) \<and>
           map name (schema_json row) = map trim (split 0x002C line) \<and>
           map type (schema_json row) = map (\<lambda>header. str ''string'') (split 0x002C line) \<and>
           map sensitive (schema_json row) =
             map (\<lambda>header. sublist (str ''id'') (toLowerCase header) \<or>
                            sublist (str ''name'') (toLowerCase header) \<or>
                            sublist (str ''phone'') (toLowerCase header)) (split 0x002C line)"
proof -
  from handleUpload_stored [OF assms(1) assms(3)] assms(2)
  obtain i pid header_row data_rows where
    rows: "filter (\<lambda>row. trim row \<noteq> []) (split 0x000A (file_text f)) = header_row # data_rows"
    and st: "datasets b' = datasets b @
             [\<lparr>d_id = i, project_id = pid, d_name = datasetName ui, d_description = description ui,
               schema_json = map schema_entry (split 0x002C header_row),
               row_count = int (length (header_row # data_rows)) - 1,
               data_type = str ''tabular'', status = str ''uploaded''\<rparr>]"
    by auto
  from filter_Cons_find [OF rows]
  have "find (\<lambda>line. \<exists>c \<in> set line. \<not> isWhiteSpace c) (split 0x000A (file_text f)) = Some header_row"
    unfolding non_blank_eq .
  with st show ?thesis
    by (simp add: schema_entry_def includes_iff_sublist comp_def split_length)
qed

theorem upload_schema_witness:
  "\<exists>row. datasets (snd (handleUpload [] (Commit (str ''d-1'')) (Some (str ''p-1'')) (Some amina)
             (idle_upload (Some loans_csv), no_rows))) = [row] \<and>
         map name (schema_json row) = [str ''a'', str ''b'', str ''id''] \<and>
         map sensitive (schema_json row) = [False, False, True]"
proof -
  let ?w = "handleUpload [] (Commit (str ''d-1'')) (Some (str ''p-1'')) (Some amina)
             (idle_upload (Some loans_csv), no_rows)"
  have 1: "?w = (fst ?w, snd ?w)" by simp
  have 2: "file_state (idle_upload (Some loans_csv)) = Some loans_csv" by (simp add: idle_upload_def)
  have 3: "datasets (snd ?w) \<noteq> datasets no_rows" by (simp add: upload_eval)
  have 4: "find (\<lambda>line. \<exists>c \<in> set line. \<not> isWhiteSpace c) (split 0x000A (file_text loans_csv))
             = Some (str ''a,b,id'')"
    by (simp add: loans_csv_def str_def isWhiteSpace_def)
  have 5: "split 0x002C (str ''a,b,id'') = [str ''a'', str ''b'', str ''id'']"
    by (simp add: str_def)
  have 6: "map trim [str ''a'', str ''b'', str ''id''] = [str ''a'', str ''b'', str ''id'']"
    by (simp add: str_def trim_def isWhiteSpace_def)
  have 7: "map (\<lambda>header. sublist (str ''id'') (toLowerCase header) \<or>
                            sublist (str ''name'') (toLowerCase header) \<or>
                            sublist (str ''phone'') (toLowerCase header)) [str ''a'', str ''b'', str ''id'']
           = [False, False, True]"
    by (simp add: includes_iff_sublist [symmetric] str_def toLowerCase_def lower_unit_def)
  have 8: "datasets no_rows = []" by (simp add: no_rows_def)
  from upload_schema [OF 1 2 3] obtain row line where
    a: "datasets (snd ?w) = datasets no_rows @ [row]"
    and b: "find (\<lambda>line. \<exists>c \<in> set line. \<not> isWhiteSpace c) (split 0x000A (file_text loans_csv)) = Some line"
    and c: "map name (schema_json row) = map trim (split 0x002C line)"
    and d: "map sensitive (schema_json row) =
             map (\<lambda>header. sublist (str ''id'') (toLowerCase header) \<or>
                            sublist (str ''name'') (toLowerCase header) \<or>
                            sublist (str ''phone'') (toLowerCase header)) (split 0x002C line)"
    by (elim exE conjE)
  from b have l: "line = str ''a,b,id''" unfolding 4 by (simp only: option.inject)
  from a have a': "datasets (snd ?w) = [row]" unfolding 8 by simp
  from c have c': "map name (schema_json row) = [str ''a'', str ''b'', str ''id'']"
    unfolding l 5 6 .
  from d have d': "map sensitive (schema_json row) = [False, False, True]"
    unfolding l 5 7 .
  from a' c' d' show ?thesis by (intro exI [of _ row] conjI)
qed


section \<open>Dataset uploader: rejected inputs\<close>

text \<open>
  Claim C8. Selecting a file whose MIME type is not \<open>text/csv\<close> sets the message
  "Please upload a CSV file", leaves the pending file as it was, and sends nothing to
  the store; with no file pending, a submit that follows does nothing either.
\<close>

theorem non_csv_selection_rejected:
  assumes "file_type f \<noteq> str ''text/csv''"
  shows "handleFileChange (Some (f # fs)) (ui, b) = (ui\<lparr>error := str ''Please upload a CSV file''\<rparr>, b) \<and>
         error (fst (handleFileChange (Some (f # fs)) (ui, b))) \<noteq> [] \<and>
         file_state (fst (handleFileChange (Some (f # fs)) (ui, b))) = file_state ui \<and>
         requests (snd (handleFileChange (Some (f # fs)) (ui, b))) = requests b \<and>
         datasets (snd (handleFileChange (Some (f # fs)) (ui, b))) = datasets b \<and>
         (file_state ui = None \<longrightarrow>
            handleUpload tmsg oc projectId usr (handleFileChange (Some (f # fs)) (ui, b)) =
            handleFileChange (Some (f # fs)) (ui, b))"
  using assms by (simp add: handleFileChange_def handleUpload_def str_def)

theorem non_csv_selection_rejected_witness:
  "file_type notes_txt \<noteq> str ''text/csv'' \<and>
   handleFileChange (Some [notes_txt]) (idle_upload None, no_rows) =
     ((idle_upload None)\<lparr>error := str ''Please upload a CSV file''\<rparr>, no_rows) \<and>
   handleUpload [] (Commit (str ''d-1'')) (Some (str ''p-1'')) (Some amina)
     (handleFileChange (Some [notes_txt]) (idle_upload None, no_rows)) =
     ((idle_upload None)\<lparr>error := str ''Please upload a CSV file''\<rparr>, no_rows)"
proof -
  have 1: "file_type notes_txt \<noteq> str ''text/csv''"
    by (simp add: notes_txt_def str_def)
  have 2: "file_state (idle_upload None) = None"
    by (simp add: idle_upload_def)
  note t = non_csv_selection_rejected [OF 1, of "[]" "idle_upload None" no_rows "[]"
      "Commit (str ''d-1'')" "Some (str ''p-1'')" "Some amina"]
  from t have a: "handleFileChange (Some [notes_txt]) (idle_upload None, no_rows) =
     ((idle_upload None)\<lparr>error := str ''Please upload a CSV file''\<rparr>, no_rows)"
    by (elim conjE)
  from t have "file_state (idle_upload None) = None \<longrightarrow>
     handleUpload [] (Commit (str ''d-1'')) (Some (str ''p-1'')) (Some amina)
       (handleFileChange (Some [notes_txt]) (idle_upload None, no_rows)) =
     handleFileChange (Some [notes_txt]) (idle_upload None, no_rows)"
    by (elim conjE)
  from this 2 have c: "handleUpload [] (Commit (str ''d-1'')) (Some (str ''p-1'')) (Some amina)
       (handleFileChange (Some [notes_txt]) (idle_upload None, no_rows)) =
     handleFileChange (Some [notes_txt]) (idle_upload None, no_rows)"
    by (rule mp)
  from c have c': "handleUpload [] (Commit (str ''d-1'')) (Some (str ''p-1'')) (Some amina)
     (handleFileChange (Some [notes_txt]) (idle_upload None, no_rows)) =
     ((idle_upload None)\<lparr>error := str ''Please upload a CSV file''\<rparr>, no_rows)"
    using a by (rule trans)
  from 1 a c' show ?thesis by (intro conjI)
qed

text \<open>
  Claim C10. When every line of the pending file is empty or white space only,
  \<open>handleUpload\<close> leaves the store as it was, request log included; and when it gets
  past its guard, the error of reading the header row is caught and shown, the engine's
  message or "Upload failed".
\<close>

theorem blank_file_upload_fails:
  assumes "\<forall>line \<in> set (split 0x000A (file_text f)). \<forall>c \<in> set line. isWhiteSpace c"
    and "file_state ui = Some f"
  shows "snd (handleUpload tmsg oc projectId usr (ui, b)) = b \<and>
         (\<forall>pid u. projectId = Some pid \<and> pid \<noteq> [] \<and> usr = Some u \<longrightarrow>
            fst (handleUpload tmsg oc projectId usr (ui, b)) =
              ui\<lparr>uploading := False, error := or_else tmsg (str ''Upload failed'')\<rparr> \<and>
            or_else tmsg (str ''Upload failed'') \<noteq> [])"
proof -
  from assms(1) have "filter (\<lambda>row. trim row \<noteq> []) (split 0x000A (file_text f)) = []"
    by (simp add: trim_empty_iff filter_empty_conv)
  with assms(2) show ?thesis
    by (auto simp: handleUpload_def upload_failed_def or_else_def str_def Let_def
             split: option.splits)
qed

theorem blank_file_upload_fails_witness:
  "handleUpload (str ''rows[0] is undefined'') (Commit (str ''d-1'')) (Some (str ''p-1'')) (Some amina)
     (idle_upload (Some blank_csv), no_rows) =
     ((idle_upload (Some blank_csv))\<lparr>error := str ''rows[0] is undefined''\<rparr>, no_rows)"
proof -
  let ?w = "handleUpload (str ''rows[0] is undefined'') (Commit (str ''d-1'')) (Some (str ''p-1''))
              (Some amina) (idle_upload (Some blank_csv), no_rows)"
  have 1: "\<forall>line \<in> set (split 0x000A (file_text blank_csv)). \<forall>c \<in> set line. isWhiteSpace c"
    by (simp add: blank_csv_def str_def isWhiteSpace_def)
  have 2: "file_state (idle_upload (Some blank_csv)) = Some blank_csv"
    by (simp add: idle_upload_def)
  have 3: "str ''p-1'' \<noteq> []" by (simp add: str_def)
  have 4: "or_else (str ''rows[0] is undefined'') (str ''Upload failed'') = str ''rows[0] is undefined''"
    by (simp add: or_else_def str_def)
  have 5: "(idle_upload (Some blank_csv))\<lparr>uploading := False, error := str ''rows[0] is undefined''\<rparr>
           = (idle_upload (Some blank_csv))\<lparr>error := str ''rows[0] is undefined''\<rparr>"
    by (simp add: idle_upload_def)
  from blank_file_upload_fails [OF 1 2, of "str ''rows[0] is undefined''" "Commit (str ''d-1'')"
      "Some (str ''p-1'')" "Some amina" no_rows] 3
  have "snd ?w = no_rows" and "fst ?w = (idle_upload (Some blank_csv))\<lparr>error := str ''rows[0] is undefined''\<rparr>"
    unfolding 4 5 by simp_all
  then have "?w = ((idle_upload (Some blank_csv))\<lparr>error := str ''rows[0] is undefined''\<rparr>, no_rows)"
    by (simp add: prod_eq_iff)
  then show ?thesis .
qed


section \<open>Generation trigger: what is stored\<close>

lemma str_eq_Nil: "str s = [] \<longleftrightarrow> s = []"
  by (simp add: str_def)

lemmas insert_defs = insert_generation_def insert_privacy_def insert_utility_def
  insert_compliance_def settle_def

lemma first_rejection_None:
  "first_rejection settles i rs = None \<longleftrightarrow> (\<forall>e. Throw e \<notin> set rs)"
  by (induction settles i rs rule: first_rejection.induct) (auto split: option.splits)

lemma first_rejection_Some:
  "first_rejection settles i rs = Some (t, e) \<Longrightarrow> Throw e \<in> set rs"
  by (induction settles i rs arbitrary: t e rule: first_rejection.induct)
     (auto split: option.splits if_splits)

lemma promise_all_Inr: "promise_all settles rs = Inr vs \<longleftrightarrow> vs = rs \<and> (\<forall>e. Throw e \<notin> set rs)"
proof (cases "first_rejection settles 0 rs")
  case None
  then show ?thesis
    using first_rejection_None [of settles 0 rs] by (auto simp: promise_all_def)
next
  case (Some te)
  then show ?thesis
    using first_rejection_None [of settles 0 rs]
    by (cases te) (auto simp: promise_all_def)
qed

lemma promise_all_Inl: "promise_all settles rs = Inl e \<Longrightarrow> Throw e \<in> set rs"
  by (auto simp: promise_all_def split: option.splits dest: first_rejection_Some)

lemma settle_Throw:
  "settle oc = Throw e \<longleftrightarrow> oc = Reject e"
  "Throw e = settle oc \<longleftrightarrow> oc = Reject e"
  by (cases oc; auto simp: settle_def)+

lemma insert_privacy_proj:
  "fst (insert_privacy oc row b) = settle oc"
  "privacy_metrics (snd (insert_privacy oc row b)) =
     privacy_metrics b @ (case oc of Commit i \<Rightarrow> [row] | _ \<Rightarrow> [])"
  "utility_metrics (snd (insert_privacy oc row b)) = utility_metrics b"
  "compliance_reports (snd (insert_privacy oc row b)) = compliance_reports b"
  "synthetic_generations (snd (insert_privacy oc row b)) = synthetic_generations b"
  "requests (snd (insert_privacy oc row b)) = requests b @ [Insert (str ''privacy_metrics'')]"
  by (cases oc; simp add: insert_privacy_def Let_def)+

lemma insert_utility_proj:
  "fst (insert_utility oc row b) = settle oc"
  "privacy_metrics (snd (insert_utility oc row b)) = privacy_metrics b"
  "utility_metrics (snd (insert_utility oc row b)) =
     utility_metrics b @ (case oc of Commit i \<Rightarrow> [row] | _ \<Rightarrow> [])"
  "compliance_reports (snd (insert_utility oc row b)) = compliance_reports b"
  "synthetic_generations (snd (insert_utility oc row b)) = synthetic_generations b"
  "requests (snd (insert_utility oc row b)) = requests b @ [Insert (str ''utility_metrics'')]"
  by (cases oc; simp add: insert_utility_def Let_def)+

lemma insert_compliance_proj:
  "fst (insert_compliance oc row b) = settle oc"
  "privacy_metrics (snd (insert_compliance oc row b)) = privacy_metrics b"
  "utility_metrics (snd (insert_compliance oc row b)) = utility_metrics b"
  "compliance_reports (snd (insert_compliance oc row b)) =
     compliance_reports b @ (case oc of Commit i \<Rightarrow> [row] | _ \<Rightarrow> [])"
  "synthetic_generations (snd (insert_compliance oc row b)) = synthetic_generations b"
  "requests (snd (insert_compliance oc row b)) = requests b @ [Insert (str ''compliance_reports'')]"
  by (cases oc; simp add: insert_compliance_def Let_def)+

lemmas insert_proj = insert_privacy_proj insert_utility_proj insert_compliance_proj

lemma handleGenerate_tables:
  assumes "handleGenerate env og op ou oc datasetId usr (ui, b) = (ui', b')"
  shows "(privacy_metrics b' = privacy_metrics b \<or>
            (\<exists>gid. privacy_metrics b' = privacy_metrics b @ [privacyMetrics env (g_params ui) gid])) \<and>
         (utility_metrics b' = utility_metrics b \<or>
            (\<exists>gid. utility_metrics b' = utility_metrics b @ [utilityMetrics env gid])) \<and>
         (compliance_reports b' = compliance_reports b \<or>
            (\<exists>gid. compliance_reports b' = compliance_reports b @ [complianceData env (g_params ui) gid]))"
  using assms
  by (cases og)
     (auto simp: handleGenerate_def insert_generation_def Let_def case_prod_beta insert_proj
           split: option.splits if_splits sum.splits outcome.splits)

lemma sample_run:
  "handleGenerate sample_env (Commit (str ''g-1'')) (Commit (str ''m-1'')) (Commit (str ''m-2''))
     (Commit (str ''m-3'')) (Some (str ''d-1'')) (Some amina) (idle_generator, no_rows) =
   (idle_generator\<lparr>g_success := True, g_timers := [(2000, OnGenerationComplete)]\<rparr>,
    no_rows\<lparr>synthetic_generations :=
        [\<lparr>g_id = str ''g-1'', dataset_id = str ''d-1'', g_user_id = uid amina,
          g_model_type = str ''ctgan'', parameters = g_params idle_generator,
          g_row_count = str ''10000'', g_status = str ''completed'',
          started_at = toISOString 1700000000000, completed_at = toISOString 1700000000001\<rparr>],
      privacy_metrics := [privacyMetrics sample_env (g_params idle_generator) (str ''g-1'')],
      utility_metrics := [utilityMetrics sample_env (str ''g-1'')],
      compliance_reports := [complianceData sample_env (g_params idle_generator) (str ''g-1'')],
      requests := [Insert (str ''synthetic_generations''), Insert (str ''privacy_metrics''),
                   Insert (str ''utility_metrics''), Insert (str ''compliance_reports'')]\<rparr>)"
  by (simp add: handleGenerate_def insert_defs Let_def str_eq_Nil idle_generator_def no_rows_def
        sample_env_def promise_all_def)

lemma privacyMetrics_bounds:
  assumes "0 \<le> random env 0" "random env 0 < 1" "0 \<le> random env 1" "random env 1 < 1"
  shows "0.05 \<le> privacy_risk_score (privacyMetrics env ps gid) \<and>
         privacy_risk_score (privacyMetrics env ps gid) \<le> 0.15 \<and>
         0.001 \<le> leakage_probability (privacyMetrics env ps gid) \<and>
         leakage_probability (privacyMetrics env ps gid) \<le> 0.006"
  using assms by (simp add: privacyMetrics_def)

lemma utilityMetrics_bounds:
  assumes "\<forall>k \<in> {2, 3, 4, 5, 6}. 0 \<le> random env k \<and> random env k < 1"
  shows "0.85 \<le> fidelity_score (utilityMetrics env gid) \<and>
         fidelity_score (utilityMetrics env gid) \<le> 0.95 \<and>
         0.88 \<le> similarity_score (utilityMetrics env gid) \<and>
         similarity_score (utilityMetrics env gid) \<le> 0.96 \<and>
         0.90 \<le> correlation_preservation (utilityMetrics env gid) \<and>
         correlation_preservation (utilityMetrics env gid) \<le> 0.98 \<and>
         0.87 \<le> distribution_similarity (utilityMetrics env gid) \<and>
         distribution_similarity (utilityMetrics env gid) \<le> 0.96 \<and>
         0.82 \<le> ml_efficacy_score (utilityMetrics env gid) \<and>
         ml_efficacy_score (utilityMetrics env gid) \<le> 0.94"
  using assms by (simp add: utilityMetrics_def)

text \<open>
  Claim C2. Whatever \<open>handleGenerate\<close> adds to the two metrics tables lies in the
  documented intervals, for any seven draws in \<open>[0, 1)\<close>: \<open>privacy_risk_score\<close> in
  \<open>[0.05, 0.15]\<close>, \<open>leakage_probability\<close> in \<open>[0.001, 0.006]\<close>, \<open>fidelity_score\<close> in
  \<open>[0.85, 0.95]\<close>, \<open>similarity_score\<close> in \<open>[0.88, 0.96]\<close>, \<open>correlation_preservation\<close> in
  \<open>[0.90, 0.98]\<close>, \<open>distribution_similarity\<close> in \<open>[0.87, 0.96]\<close> and
  \<open>ml_efficacy_score\<close> in \<open>[0.82, 0.94]\<close>. The arithmetic is that of the real numbers.
\<close>

theorem stored_metrics_in_range:
  assumes run: "handleGenerate env og op ou oc datasetId usr (ui, b) = (ui', b')"
    and draws: "\<forall>k < 7. 0 \<le> random env k \<and> random env k < 1"
  shows "(\<forall>p \<in> set (drop (length (privacy_metrics b)) (privacy_metrics b')).
            0.05 \<le> privacy_risk_score p \<and> privacy_risk_score p \<le> 0.15 \<and>
            0.001 \<le> leakage_probability p \<and> leakage_probability p \<le> 0.006) \<and>
         (\<forall>q \<in> set (drop (length (utility_metrics b)) (utility_metrics b')).
            0.85 \<le> fidelity_score q \<and> fidelity_score q \<le> 0.95 \<and>
            0.88 \<le> similarity_score q \<and> similarity_score q \<le> 0.96 \<and>
            0.90 \<le> correlation_preservation q \<and> correlation_preservation q \<le> 0.98 \<and>
            0.87 \<le> distribution_similarity q \<and> distribution_similarity q \<le> 0.96 \<and>
            0.82 \<le> ml_efficacy_score q \<and> ml_efficacy_score q \<le> 0.94)"
proof (rule conjI; rule ballI)
  fix p assume p: "p \<in> set (drop (length (privacy_metrics b)) (privacy_metrics b'))"
  from handleGenerate_tables [OF run] p
  obtain gid where "p = privacyMetrics env (g_params ui) gid" by auto
  moreover from draws have "0 \<le> random env 0" "random env 0 < 1" "0 \<le> random env 1" "random env 1 < 1"
    by simp_all
  ultimately show "0.05 \<le> privacy_risk_score p \<and> privacy_risk_score p \<le> 0.15 \<and>
            0.001 \<le> leakage_probability p \<and> leakage_probability p \<le> 0.006"
    using privacyMetrics_bounds by blast
next
  fix q assume q: "q \<in> set (drop (length (utility_metrics b)) (utility_metrics b'))"
  from handleGenerate_tables [OF run] q
  obtain gid where "q = utilityMetrics env gid" by auto
  moreover from draws have "\<forall>k \<in> {2, 3, 4, 5, 6}. 0 \<le> random env k \<and> random env k < 1"
    by simp
  ultimately show "0.85 \<le> fidelity_score q \<and> fidelity_score q \<le> 0.95 \<and>
            0.88 \<le> similarity_score q \<and> similarity_score q \<le> 0.96 \<and>
            0.90 \<le> correlation_preservation q \<and> correlation_preservation q \<le> 0.98 \<and>
            0.87 \<le> distribution_similarity q \<and> distribution_similarity q \<le> 0.96 \<and>
            0.82 \<le> ml_efficacy_score q \<and> ml_efficacy_score q \<le> 0.94"
    using utilityMetrics_bounds by blast
qed

theorem stored_metrics_in_range_witness:
  "\<exists>p q. privacy_metrics (snd (handleGenerate sample_env (Commit (str ''g-1'')) (Commit (str ''m-1''))
             (Commit (str ''m-2'')) (Commit (str ''m-3'')) (Some (str ''d-1'')) (Some amina)
             (idle_generator, no_rows))) = [p] \<and>
         utility_metrics (snd (handleGenerate sample_env (Commit (str ''g-1'')) (Commit (str ''m-1''))
             (Commit (str ''m-2'')) (Commit (str ''m-3'')) (Some (str ''d-1'')) (Some amina)
             (idle_generator, no_rows))) = [q] \<and>
         0.05 \<le> privacy_risk_score p \<and> privacy_risk_score p \<le> 0.15 \<and>
         0.001 \<le> leakage_probability p \<and> leakage_probability p \<le> 0.006 \<and>
         0.85 \<le> fidelity_score q \<and> fidelity_score q \<le> 0.95 \<and>
         0.82 \<le> ml_efficacy_score q \<and> ml_efficacy_score q \<le> 0.94"
proof -
  let ?w = "handleGenerate sample_env (Commit (str ''g-1'')) (Commit (str ''m-1''))
             (Commit (str ''m-2'')) (Commit (str ''m-3'')) (Some (str ''d-1'')) (Some amina)
             (idle_generator, no_rows)"
  let ?p = "privacyMetrics sample_env (g_params idle_generator) (str ''g-1'')"
  let ?q = "utilityMetrics sample_env (str ''g-1'')"
  have 1: "?w = (fst ?w, snd ?w)" by simp
  have 2: "\<forall>k < 7. 0 \<le> random sample_env k \<and> random sample_env k < 1"
    by (simp add: sample_env_def)
  have p: "privacy_metrics (snd ?w) = [?p]" and q: "utility_metrics (snd ?w) = [?q]"
    unfolding sample_run by simp_all
  have d: "drop (length (privacy_metrics no_rows)) (privacy_metrics (snd ?w)) = [?p]"
       "drop (length (utility_metrics no_rows)) (utility_metrics (snd ?w)) = [?q]"
    unfolding p q by (simp_all add: no_rows_def)
  from stored_metrics_in_range [OF 1 2]
  have "0.05 \<le> privacy_risk_score ?p \<and> privacy_risk_score ?p \<le> 0.15 \<and>
         0.001 \<le> leakage_probability ?p \<and> leakage_probability ?p \<le> 0.006 \<and>
         0.85 \<le> fidelity_score ?q \<and> fidelity_score ?q \<le> 0.95 \<and>
         0.82 \<le> ml_efficacy_score ?q \<and> ml_efficacy_score ?q \<le> 0.94"
    unfolding d by simp
  with p q show ?thesis by blast
qed

lemma handleGenerate_report:
  assumes "handleGenerate env og op ou oc datasetId usr (ui, b) = (ui', b')"
    and "compliance_reports b' \<noteq> compliance_reports b"
  shows "\<exists>gid. compliance_reports b' = compliance_reports b @ [complianceData env (g_params ui) gid]"
  using handleGenerate_tables [OF assms(1)] assms(2) by blast

text \<open>
  Claim C5. The compliance report \<open>handleGenerate\<close> stores has the status "compliant",
  its \<open>privacy_guarantees\<close> contains the string made of \<open>\<epsilon>=\<close> and the rendering of
  the epsilon parameter, and its \<open>anonymization\<close> contains \<open>k=\<close> followed by the rendering
  of the k-anonymity parameter.
\<close>

theorem report_embeds_parameters:
  assumes "handleGenerate env og op ou oc datasetId usr (ui, b) = (ui', b')"
    and "compliance_reports b' \<noteq> compliance_reports b"
  shows "\<exists>r. compliance_reports b' = compliance_reports b @ [r] \<and>
           compliance_status r = str ''compliant'' \<and>
           sublist ([0x03B5] @ str ''='' @ ToString env (epsilon (g_params ui)))
                   (privacy_guarantees (report r)) \<and>
           sublist (str ''k='' @ ToString env (k_anonymity (g_params ui)))
                   (anonymization (report r))"
proof -
  from handleGenerate_report [OF assms] obtain gid where
    r: "compliance_reports b' = compliance_reports b @ [complianceData env (g_params ui) gid]" ..
  have e: "sublist ([0x03B5] @ str ''='' @ ToString env (epsilon (g_params ui)))
             (privacy_guarantees (report (complianceData env (g_params ui) gid)))"
    unfolding sublist_def
    by (rule exI [of _ "[0x03B5] @ str ''-differential privacy with ''"], rule exI [of _ "[]"])
       (simp add: complianceData_def)
  have k: "sublist (str ''k='' @ ToString env (k_anonymity (g_params ui)))
             (anonymization (report (complianceData env (g_params ui) gid)))"
    unfolding sublist_def
    by (rule exI [of _ "str ''k-anonymity with ''"], rule exI [of _ "[]"])
       (simp add: complianceData_def str_def)
  have s: "compliance_status (complianceData env (g_params ui) gid) = str ''compliant''"
    by (simp add: complianceData_def)
  from r s e k show ?thesis by blast
qed

theorem report_embeds_parameters_witness:
  "\<exists>r. compliance_reports (snd (handleGenerate sample_env (Commit (str ''g-1'')) (Commit (str ''m-1''))
             (Commit (str ''m-2'')) (Commit (str ''m-3'')) (Some (str ''d-1'')) (Some amina)
             (idle_generator, no_rows))) = [r] \<and>
       compliance_status r = str ''compliant'' \<and>
       sublist ([0x03B5] @ str ''=1'') (privacy_guarantees (report r)) \<and>
       sublist (str ''k=5'') (anonymization (report r))"
proof -
  let ?w = "handleGenerate sample_env (Commit (str ''g-1'')) (Commit (str ''m-1''))
             (Commit (str ''m-2'')) (Commit (str ''m-3'')) (Some (str ''d-1'')) (Some amina)
             (idle_generator, no_rows)"
  have 1: "?w = (fst ?w, snd ?w)" by simp
  have 2: "compliance_reports (snd ?w) \<noteq> compliance_reports no_rows"
    unfolding sample_run by (simp add: no_rows_def)
  have 3: "compliance_reports no_rows = []" by (simp add: no_rows_def)
  have 4: "[0x03B5] @ str ''='' @ ToString sample_env (epsilon (g_params idle_generator))
             = [0x03B5] @ str ''=1''"
    by (simp add: sample_env_def idle_generator_def str_def)
  have 5: "str ''k='' @ ToString sample_env (k_anonymity (g_params idle_generator)) = str ''k=5''"
    by (simp add: sample_env_def idle_generator_def str_def)
  from report_embeds_parameters [OF 1 2] show ?thesis
    unfolding 3 4 5 by simp
qed

text \<open>
  Claim C7, as amended. The stored report's \<open>valid_until\<close> is the reading of
  \<open>Date.now()\<close> taken when the report is built plus \<open>365 * 24 * 60 * 60 * 1000\<close>
  milliseconds. The stored \<open>generated_at\<close> comes from a separate reading of the clock,
  taken just before, so the stored window from \<open>generated_at\<close> to \<open>valid_until\<close> is 365
  days plus the time between the two readings: at least 365 days when the clock does not
  go back, and exactly 365 days only when the clock did not move between them.
\<close>

theorem report_validity_window:
  assumes "handleGenerate env og op ou oc datasetId usr (ui, b) = (ui', b')"
    and "compliance_reports b' \<noteq> compliance_reports b"
  shows "\<exists>r. compliance_reports b' = compliance_reports b @ [r] \<and>
           generated_at (report r) = toISOString (clock env 2) \<and>
           valid_until (report r) = toISOString (clock env 3 + 365 * 24 * 60 * 60 * 1000) \<and>
           getTime (valid_until (report r)) - getTime (generated_at (report r)) =
             365 * 24 * 60 * 60 * 1000 + (clock env 3 - clock env 2) \<and>
           (clock env 2 \<le> clock env 3 \<longrightarrow>
              getTime (generated_at (report r)) + 365 * 24 * 60 * 60 * 1000
                \<le> getTime (valid_until (report r))) \<and>
           (getTime (valid_until (report r)) =
              getTime (generated_at (report r)) + 365 * 24 * 60 * 60 * 1000
            \<longleftrightarrow> clock env 3 = clock env 2)"
proof -
  from handleGenerate_report [OF assms] obtain gid where
    r: "compliance_reports b' = compliance_reports b @ [complianceData env (g_params ui) gid]" ..
  have "generated_at (report (complianceData env (g_params ui) gid)) = toISOString (clock env 2)"
    and "valid_until (report (complianceData env (g_params ui) gid)) =
           toISOString (clock env 3 + 365 * 24 * 60 * 60 * 1000)"
    by (simp_all add: complianceData_def)
  with r show ?thesis by auto
qed

theorem report_validity_window_witness:
  "\<exists>r. compliance_reports (snd (handleGenerate sample_env (Commit (str ''g-1'')) (Commit (str ''m-1''))
             (Commit (str ''m-2'')) (Commit (str ''m-3'')) (Some (str ''d-1'')) (Some amina)
             (idle_generator, no_rows))) = [r] \<and>
       getTime (valid_until (report r)) - getTime (generated_at (report r)) = 31536000001 \<and>
       getTime (generated_at (report r)) + 31536000000 \<le> getTime (valid_until (report r))"
proof -
  let ?w = "handleGenerate sample_env (Commit (str ''g-1'')) (Commit (str ''m-1''))
             (Commit (str ''m-2'')) (Commit (str ''m-3'')) (Some (str ''d-1'')) (Some amina)
             (idle_generator, no_rows)"
  have 1: "?w = (fst ?w, snd ?w)" by simp
  have 2: "compliance_reports (snd ?w) \<noteq> compliance_reports no_rows"
    unfolding sample_run by (simp add: no_rows_def)
  have 3: "compliance_reports no_rows = []" by (simp add: no_rows_def)
  have 4: "365 * 24 * 60 * 60 * 1000 + (clock sample_env 3 - clock sample_env 2) = 31536000001"
    by (simp add: sample_env_def)
  have 5: "clock sample_env 2 \<le> clock sample_env 3"
    by (simp add: sample_env_def)
  from report_validity_window [OF 1 2] obtain r where
    a: "compliance_reports (snd ?w) = compliance_reports no_rows @ [r]"
    and d: "getTime (valid_until (report r)) - getTime (generated_at (report r)) =
             365 * 24 * 60 * 60 * 1000 + (clock sample_env 3 - clock sample_env 2)"
    and e: "clock sample_env 2 \<le> clock sample_env 3 \<longrightarrow>
              getTime (generated_at (report r)) + 365 * 24 * 60 * 60 * 1000
                \<le> getTime (valid_until (report r))"
    by (elim exE conjE)
  from a have a': "compliance_reports (snd ?w) = [r]" unfolding 3 by simp
  from d have d': "getTime (valid_until (report r)) - getTime (generated_at (report r)) = 31536000001"
    unfolding 4 .
  from e 5 have "getTime (generated_at (report r)) + 365 * 24 * 60 * 60 * 1000
                \<le> getTime (valid_until (report r))"
    by (rule mp)
  then have e': "getTime (generated_at (report r)) + 31536000000 \<le> getTime (valid_until (report r))"
    by simp
  from a' d' e' show ?thesis by (intro exI [of _ r] conjI)
qed

text \<open>
  The claim as stated, read against the times the store holds: in a run whose clock
  advances by a millisecond per reading, \<open>valid_until\<close> is not \<open>generated_at\<close> plus 365
  days, and the Generation row's own timestamps are earlier still.
\<close>

theorem report_window_exceeds_365_days:
  "compliance_reports (snd (handleGenerate sample_env (Commit (str ''g-1'')) (Commit (str ''m-1''))
       (Commit (str ''m-2'')) (Commit (str ''m-3'')) (Some (str ''d-1'')) (Some amina)
       (idle_generator, no_rows))) =
     [complianceData sample_env (g_params idle_generator) (str ''g-1'')] \<and>
   getTime (generated_at (report (complianceData sample_env (g_params idle_generator) (str ''g-1''))))
     = 1700000000002 \<and>
   getTime (valid_until (report (complianceData sample_env (g_params idle_generator) (str ''g-1''))))
     = 1731536000003 \<and>
   getTime (valid_until (report (complianceData sample_env (g_params idle_generator) (str ''g-1''))))
     \<noteq> getTime (generated_at (report (complianceData sample_env (g_params idle_generator) (str ''g-1''))))
         + 365 * 24 * 60 * 60 * 1000 \<and>
   map started_at (synthetic_generations (snd (handleGenerate sample_env (Commit (str ''g-1''))
       (Commit (str ''m-1'')) (Commit (str ''m-2'')) (Commit (str ''m-3'')) (Some (str ''d-1''))
       (Some amina) (idle_generator, no_rows)))) = [toISOString 1700000000000] \<and>
   map completed_at (synthetic_generations (snd (handleGenerate sample_env (Commit (str ''g-1''))
       (Commit (str ''m-1'')) (Commit (str ''m-2'')) (Commit (str ''m-3'')) (Some (str ''d-1''))
       (Some amina) (idle_generator, no_rows)))) = [toISOString 1700000000001]"
proof -
  have g: "getTime (generated_at (report (complianceData sample_env (g_params idle_generator) (str ''g-1''))))
             = 1700000000002"
    and v: "getTime (valid_until (report (complianceData sample_env (g_params idle_generator) (str ''g-1''))))
             = 1731536000003"
    by (simp_all add: complianceData_def sample_env_def)
  show ?thesis
    unfolding sample_run g v by simp
qed


section \<open>Generation trigger: a refused insert\<close>

text \<open>
  Once the Generation row is committed, each of the three inserts reaches the store and
  commits or not on its own; nothing is taken back.
\<close>

lemma handleGenerate_commits:
  assumes "handleGenerate env (Commit gid) op ou oc (Some did) (Some u) (ui, b) = (ui', b')"
    and "did \<noteq> []"
  shows "privacy_metrics b' = privacy_metrics b @
           (case op of Commit i \<Rightarrow> [privacyMetrics env (g_params ui) gid] | _ \<Rightarrow> []) \<and>
         utility_metrics b' = utility_metrics b @
           (case ou of Commit i \<Rightarrow> [utilityMetrics env gid] | _ \<Rightarrow> []) \<and>
         compliance_reports b' = compliance_reports b @
           (case oc of Commit i \<Rightarrow> [complianceData env (g_params ui) gid] | _ \<Rightarrow> []) \<and>
         length (synthetic_generations b') = Suc (length (synthetic_generations b)) \<and>
         requests b' = requests b @
           [Insert (str ''synthetic_generations''), Insert (str ''privacy_metrics''),
            Insert (str ''utility_metrics''), Insert (str ''compliance_reports'')]"
  using assms
  by (auto simp: handleGenerate_def insert_generation_def Let_def case_prod_beta insert_proj
           split: sum.splits)

text \<open>A rejected promise keeps the handler from declaring success; a refused insert does not.\<close>

lemma rejected_insert_aborts_success:
  assumes "handleGenerate env og op ou oc datasetId usr (ui, b) = (ui', b')"
    and "(\<exists>e. op = Reject e) \<or> (\<exists>e. ou = Reject e) \<or> (\<exists>e. oc = Reject e)"
  shows "g_success ui' = g_success ui \<and> g_timers ui' = g_timers ui"
  using assms
  by (cases og)
     (auto simp: handleGenerate_def insert_generation_def Let_def case_prod_beta insert_proj
                 generate_failed_def promise_all_Inr settle_Throw
           split: option.splits if_splits sum.splits)

lemma refused_inserts_declare_success:
  assumes "handleGenerate env (Commit gid) op ou oc (Some did) (Some u) (ui, b) = (ui', b')"
    and "did \<noteq> []"
    and "\<forall>e. op \<noteq> Reject e" "\<forall>e. ou \<noteq> Reject e" "\<forall>e. oc \<noteq> Reject e"
  shows "g_success ui' \<and> g_timers ui' = g_timers ui @ [(2000, OnGenerationComplete)]"
  using assms
  by (auto simp: handleGenerate_def insert_generation_def Let_def case_prod_beta insert_proj
                 settle_Throw
           split: sum.splits dest!: promise_all_Inl)

text \<open>
  Claim C1, at a run where the store refuses the \<open>privacy_metrics\<close> insert and reports
  the error in its response, as it does for the Generation insert that the handler
  checks with \<open>if (genError) throw genError\<close>: the handler still declares success and
  schedules \<open>onGenerationComplete\<close>, the other two rows stay committed, and no privacy
  row exists.
\<close>

theorem refused_insert_still_declares_success:
  "handleGenerate sample_env (Commit (str ''g-1'')) (Refuse (Error (str ''permission denied'')))
     (Commit (str ''m-2'')) (Commit (str ''m-3'')) (Some (str ''d-1'')) (Some amina)
     (idle_generator, no_rows) =
   (idle_generator\<lparr>g_success := True, g_timers := [(2000, OnGenerationComplete)]\<rparr>,
    no_rows\<lparr>synthetic_generations :=
        [\<lparr>g_id = str ''g-1'', dataset_id = str ''d-1'', g_user_id = uid amina,
          g_model_type = str ''ctgan'', parameters = g_params idle_generator,
          g_row_count = str ''10000'', g_status = str ''completed'',
          started_at = toISOString 1700000000000, completed_at = toISOString 1700000000001\<rparr>],
      privacy_metrics := [],
      utility_metrics := [utilityMetrics sample_env (str ''g-1'')],
      compliance_reports := [complianceData sample_env (g_params idle_generator) (str ''g-1'')],
      requests := [Insert (str ''synthetic_generations''), Insert (str ''privacy_metrics''),
                   Insert (str ''utility_metrics''), Insert (str ''compliance_reports'')]\<rparr>)"
  by (simp add: handleGenerate_def insert_defs Let_def str_eq_Nil idle_generator_def no_rows_def
        sample_env_def promise_all_def)


section \<open>Metrics viewer: the name of the exported file\<close>

text \<open>
  Claim C9. With no compliance report the download does nothing. Otherwise it saves one
  file of type \<open>text/plain\<close> named \<open>compliance-report-\<close>, the first 8 code units of the
  generation's id, \<open>.txt\<close>; the store is not touched.
\<close>

theorem report_download_name:
  "(v_compliance_reports gen = [] \<longrightarrow>
      downloadComplianceReport render gen (saved, b) = (saved, b)) \<and>
   (v_compliance_reports gen \<noteq> [] \<longrightarrow>
      (\<exists>d. downloadComplianceReport render gen (saved, b) = (saved @ [d], b) \<and>
           download_name d = str ''compliance-report-'' @ take 8 (v_id gen) @ str ''.txt'' \<and>
           blob_type (href d) = str ''text/plain''))"
  by (simp add: downloadComplianceReport_def slice0_def split: list.splits)

theorem report_download_name_witness:
  "\<exists>d. downloadComplianceReport (\<lambda>gen rep. str ''KENYA DATA PROTECTION ACT COMPLIANCE REPORT'')
          sample_view ([], no_rows) = ([d], no_rows) \<and>
       download_name d = str ''compliance-report-0b9f3c1e.txt'' \<and>
       blob_type (href d) = str ''text/plain''"
proof -
  have 1: "v_compliance_reports sample_view \<noteq> []"
    by (simp add: sample_view_def)
  have 2: "str ''compliance-report-'' @ take 8 (v_id sample_view) @ str ''.txt''
           = str ''compliance-report-0b9f3c1e.txt''"
    by (simp add: sample_view_def str_def)
  from report_download_name [of sample_view "\<lambda>gen rep. str ''KENYA DATA PROTECTION ACT COMPLIANCE REPORT''"
      "[]" no_rows] 1
  show ?thesis unfolding 2 by simp
qed


section \<open>Dashboard shell: which rows are counted\<close>




end
